theory Spec2Isabelle
  imports Main "HOL-Library.Word"
begin

section \<open>littleorm: a fluent SQL builder over sqlx\<close>

text \<open>
  A shallow embedding of \<^verbatim>\<open>littleorm.go\<close>. Go strings are byte sequences and become
  \<^typ>\<open>string\<close>; \<^verbatim>\<open>int64\<close> is \<^typ>\<open>64 word\<close> read with \<^const>\<open>sint\<close>; a value of
  type \<^verbatim>\<open>interface{}\<close> is an element of a type variable \<open>'v\<close>; a nil-able pointer or
  interface is an \<^typ>\<open>'a option\<close>; a Go \<^verbatim>\<open>error\<close> is its message, \<open>None\<close> being nil.
  A panic is the value \<open>Panic msg\<close> of the result type. The calls to \<^verbatim>\<open>log.Printf\<close>
  only trace the statement and are left out.
\<close>

subsection \<open>Constants\<close>

definition Grouping :: string where "Grouping = '' and ''"
definition ParamMarker :: string where "ParamMarker = ''?''"
definition DBTag :: string where "DBTag = ''db''"
definition SeqComma :: string where "SeqComma = '', ''"
definition SeqSpace :: string where "SeqSpace = '' ''"

definition SelectTypeOne :: int where "SelectTypeOne = 0"
definition SelectTypeMany :: int where "SelectTypeMany = 1"

type_synonym err = string
type_synonym tx = nat
type_synonym int64 = "64 word"

datatype 'a outcome = Return 'a | Panic string

subsection \<open>String utilities\<close>

text \<open>\<^verbatim>\<open>strings.Join\<close>: the elements, with the separator between neighbours.\<close>

fun Join :: "string list \<Rightarrow> string \<Rightarrow> string" where
  "Join [] sep = []"
| "Join [x] sep = x"
| "Join (x # y # ys) sep = x @ sep @ Join (y # ys) sep"

definition sqljoin :: "string list \<Rightarrow> string \<Rightarrow> string" where
  "sqljoin args seq = Join args seq"

text \<open>\<^verbatim>\<open>fmt.Sprintf("where %s", ...)\<close> when there is a filter, the empty string otherwise.\<close>

definition sqlwhere :: "string list \<Rightarrow> string \<Rightarrow> string" where
  "sqlwhere wheres grouping =
     (if length wheres > 0 then ''where '' @ Join wheres grouping else [])"

text \<open>The verb \<^verbatim>\<open>%d\<close> of \<^verbatim>\<open>fmt\<close>: signed decimal without padding.\<close>

fun digits :: "nat \<Rightarrow> string" where
  "digits n = (if n < 10 then [''0123456789'' ! n]
               else digits (n div 10) @ [''0123456789'' ! (n mod 10)])"

declare digits.simps [simp del]

definition fmt_d :: "int \<Rightarrow> string" where
  "fmt_d i = (if i < 0 then CHR ''-'' # digits (nat (- i)) else digits (nat i))"

subsection \<open>The builder context\<close>

text \<open>
  The struct \<^verbatim>\<open>Context\<close>. Its field \<^verbatim>\<open>db\<close> points back to the one handle that
  allocated it and whose pool it returns to; that handle is the explicit \<open>DB\<close> argument
  of the operations below, so the record carries the other thirteen fields.
\<close>

record 'v Context =
  tx :: "tx option"
  sql :: string
  name :: string
  what :: "string list"
  wheres :: "string list"
  order :: string
  group :: string
  having :: string
  limit :: int64
  offset :: int64
  args :: "'v list"
  lockX :: bool
  lockS :: bool

definition Name :: "string \<Rightarrow> 'v Context \<Rightarrow> 'v Context" where
  "Name n ctx = ctx\<lparr>name := n\<rparr>"

definition What :: "string list \<Rightarrow> 'v Context \<Rightarrow> 'v Context" where
  "What ws ctx = ctx\<lparr>what := ws\<rparr>"

definition Where :: "string \<Rightarrow> 'v list \<Rightarrow> 'v Context \<Rightarrow> 'v Context" where
  "Where w as ctx = ctx\<lparr>wheres := wheres ctx @ [w], args := args ctx @ as\<rparr>"

text \<open>
  The loop of \<^verbatim>\<open>WhereIn\<close>: \<^verbatim>\<open>for i := 0; i < n; i++ { places[i] = ParamMarker }\<close>
  over \<^verbatim>\<open>make([]string, n)\<close>, a slice of \<open>n\<close> empty strings.
\<close>

function fill_places :: "nat \<Rightarrow> nat \<Rightarrow> string list \<Rightarrow> string list" where
  "fill_places i n places =
     (if i < n then fill_places (Suc i) n (places[i := ParamMarker]) else places)"
  by pat_completeness auto
termination
  by (relation "measure (\<lambda>(i, n, places). n - i)") auto

declare fill_places.simps [simp del]

definition WhereIn :: "string \<Rightarrow> 'v list \<Rightarrow> 'v Context \<Rightarrow> 'v Context" where
  "WhereIn field as ctx =
     (let n = length as;
          places = fill_places 0 n (replicate n []);
          inWhere = field @ '' in ('' @ sqljoin places SeqComma @ '')''
      in Where inWhere as ctx)"

definition Order :: "string \<Rightarrow> 'v Context \<Rightarrow> 'v Context" where
  "Order s ctx = ctx\<lparr>order := s\<rparr>"



definition Group :: "string \<Rightarrow> 'v Context \<Rightarrow> 'v Context" where
  "Group s ctx = ctx\<lparr>group := s\<rparr>"


definition LockX :: "'v Context \<Rightarrow> 'v Context" where
  "LockX ctx = ctx\<lparr>lockX := True\<rparr>"

definition LockS :: "'v Context \<Rightarrow> 'v Context" where
  "LockS ctx = ctx\<lparr>lockS := True\<rparr>"

definition reset :: "'v Context \<Rightarrow> 'v Context" where
  "reset ctx = ctx\<lparr>sql := [], name := [], what := [], wheres := [], order := [],
     group := [], having := [], limit := 0, offset := 0, args := [], tx := None,
     lockS := False, lockX := False\<rparr>"

subsection \<open>Decoding the \<^verbatim>\<open>db\<close> tags of a destination\<close>

text \<open>
  \<^verbatim>\<open>decodetags\<close> looks at the dynamic type of the destination only. The types of
  \<^verbatim>\<open>reflect\<close> are modelled by their kind: \<^verbatim>\<open>Elem\<close> is defined on arrays, channels,
  maps, pointers and slices and panics on every other kind, \<^verbatim>\<open>NumField\<close> panics on
  every kind but a struct, and \<^verbatim>\<open>Tag.Get\<close> yields the empty string for a missing key.
  A destination is the dynamic type of the \<^verbatim>\<open>interface{}\<close> argument, \<open>None\<close> for nil.
\<close>

datatype rtype =
    Basic string
  | Array rtype
  | Chan rtype
  | Map rtype rtype
  | Pointer rtype
  | Slice rtype
  | Struct "(string \<times> (string \<times> string) list) list"

type_synonym dest = "rtype option"

fun Elem :: "rtype \<Rightarrow> rtype outcome" where
  "Elem (Array t) = Return t"
| "Elem (Chan t) = Return t"
| "Elem (Map k t) = Return t"
| "Elem (Pointer t) = Return t"
| "Elem (Slice t) = Return t"
| "Elem (Basic n) = Panic ''reflect: Elem of invalid type''"
| "Elem (Struct fs) = Panic ''reflect: Elem of invalid type''"

definition tag_get :: "(string \<times> string) list \<Rightarrow> string \<Rightarrow> string" where
  "tag_get tag key = (case map_of tag key of None \<Rightarrow> [] | Some v \<Rightarrow> v)"

text \<open>The loop over the fields of the struct, appending each non-empty tag.\<close>

fun collect_tags :: "(string \<times> (string \<times> string) list) list \<Rightarrow> string list" where
  "collect_tags [] = []"
| "collect_tags (f # fs) =
     (let dbTag = tag_get (snd f) DBTag
      in if dbTag \<noteq> [] then dbTag # collect_tags fs else collect_tags fs)"

definition decodetags :: "dest \<Rightarrow> string list outcome" where
  "decodetags d =
     (case d of
        None \<Rightarrow> Panic ''reflect: call of reflect.Value.Type on zero Value''
      | Some t \<Rightarrow>
          (case Elem t of
             Panic m \<Rightarrow> Panic m
           | Return sl \<Rightarrow>
               (let base = (case sl of Slice e \<Rightarrow> e | _ \<Rightarrow> sl)
                in case base of
                     Struct fs \<Rightarrow> Return (collect_tags fs)
                   | _ \<Rightarrow> Panic ''reflect: NumField of non-struct type'')))"

subsection \<open>Assembling the select statement\<close>

definition sqlselect :: "'v Context \<Rightarrow> dest \<Rightarrow> string outcome" where
  "sqlselect ctx d =
     (case (if length (what ctx) \<noteq> 0 then Return [sqljoin (what ctx) SeqComma]
            else (case decodetags d of
                    Panic m \<Rightarrow> Panic m
                  | Return whatFields \<Rightarrow>
                      if length whatFields > 0 then Return [sqljoin whatFields SeqComma]
                      else Return [''*''])) of
        Panic m \<Rightarrow> Panic m
      | Return cols \<Rightarrow>
          Return (sqljoin
            ([''select''] @ cols @ [''from '' @ name ctx]
             @ (if length (wheres ctx) \<noteq> 0 then [sqlwhere (wheres ctx) Grouping] else [])
             @ (if group ctx \<noteq> [] then [''group by '' @ group ctx] else [])
             @ (if having ctx \<noteq> [] then [''having '' @ having ctx] else [])
             @ (if order ctx \<noteq> [] then [''order by '' @ order ctx] else [])
             @ (if limit ctx \<noteq> 0
                then [''limit '' @ fmt_d (sint (offset ctx)) @ '', '' @ fmt_d (sint (limit ctx))]
                else [])
             @ (if lockS ctx then [''lock in share mode''] else [])
             @ (if lockX ctx then [''for update''] else []))
            SeqSpace))"

subsection \<open>The database handle and its pool of contexts\<close>

text \<open>
  The struct \<^verbatim>\<open>DB\<close>: the idle contexts of its \<^verbatim>\<open>sync.Pool\<close> and the timeout (a
  \<^verbatim>\<open>time.Duration\<close>, in nanoseconds). The embedded \<^verbatim>\<open>*sqlx.DB\<close> is the driver below.
  \<^verbatim>\<open>Pool.Get\<close> removes an arbitrary idle item or, when it takes none, calls the
  \<^verbatim>\<open>New\<close> function that \<^verbatim>\<open>Open\<close> installed, which is \<^verbatim>\<open>allocateContext\<close>; the
  choice is the argument \<open>i\<close>: the index of the item taken, any index past the end
  standing for the call of \<^verbatim>\<open>New\<close>.
\<close>

record 'v DB =
  pool :: "'v Context list"
  timeout :: int

definition allocateContext :: "'v DB \<Rightarrow> 'v Context" where
  "allocateContext db = \<lparr>tx = None, sql = [], name = [], what = [], wheres = [],
     order = [], group = [], having = [], limit = 0, offset = 0, args = [],
     lockX = False, lockS = False\<rparr>"

definition pool_Get :: "nat \<Rightarrow> 'v DB \<Rightarrow> 'v Context \<times> 'v DB" where
  "pool_Get i db =
     (if i < length (pool db)
      then (pool db ! i, db\<lparr>pool := take i (pool db) @ drop (Suc i) (pool db)\<rparr>)
      else (allocateContext db, db))"

definition pool_Put :: "'v Context \<Rightarrow> 'v DB \<Rightarrow> 'v DB" where
  "pool_Put ctx db = db\<lparr>pool := ctx # pool db\<rparr>"

definition Acquire :: "nat \<Rightarrow> 'v DB \<Rightarrow> 'v Context \<times> 'v DB" where
  "Acquire i db = (let (ctx, db') = pool_Get i db in (reset ctx, db'))"

definition AcquireTx :: "nat \<Rightarrow> tx option \<Rightarrow> 'v DB \<Rightarrow> 'v Context \<times> 'v DB" where
  "AcquireTx i t db = (let (ctx, db') = Acquire i db in (ctx\<lparr>tx := t\<rparr>, db'))"

subsection \<open>The driver\<close>

text \<open>
  sqlx and \<^verbatim>\<open>database/sql\<close> are outside the repository: their operations are the
  fields of a record, each a function of the state \<open>'w\<close> of the outside world (the
  database, the memory behind a destination) that returns what the Go function returns
  and the new state. The first argument of the three \<^verbatim>\<open>...Context\<close> functions is the
  timeout of the \<^verbatim>\<open>context.WithTimeout\<close> they run under, the second the receiver:
  \<open>Some t\<close> for the transaction \<open>t\<close>, \<open>None\<close> for the handle itself.
\<close>

record ('w, 'v, 'r) driver =
  Beginx :: "'w \<Rightarrow> (tx option \<times> err option) \<times> 'w"
  Rollback :: "tx \<Rightarrow> 'w \<Rightarrow> err option \<times> 'w"
  Commit :: "tx \<Rightarrow> 'w \<Rightarrow> err option \<times> 'w"
  ExecContext :: "int \<Rightarrow> tx option \<Rightarrow> string \<Rightarrow> 'v list \<Rightarrow> 'w \<Rightarrow> ('r option \<times> err option) \<times> 'w"
  GetContext :: "int \<Rightarrow> tx option \<Rightarrow> dest \<Rightarrow> string \<Rightarrow> 'v list \<Rightarrow> 'w \<Rightarrow> err option \<times> 'w"
  SelectContext :: "int \<Rightarrow> tx option \<Rightarrow> dest \<Rightarrow> string \<Rightarrow> 'v list \<Rightarrow> 'w \<Rightarrow> err option \<times> 'w"
  RowsAffected :: "'r \<Rightarrow> int64 \<times> err option"

definition nil_deref :: string where
  "nil_deref = ''runtime error: invalid memory address or nil pointer dereference''"

subsection \<open>Terminal operations\<close>

text \<open>
  Every terminal operation returns its Go result, the handle with the context put back
  (the deferred \<^verbatim>\<open>pool.Put\<close> runs on every exit, a panic included) and the new world.
\<close>

definition ctx_find ::
  "('w, 'v, 'r) driver \<Rightarrow> dest \<Rightarrow> int \<Rightarrow> 'v Context \<Rightarrow> 'v DB \<Rightarrow> 'w
     \<Rightarrow> err option outcome \<times> 'v DB \<times> 'w" where
  "ctx_find d dst selectType ctx db w =
     (case (if sql ctx = [] then sqlselect ctx dst else Return (sql ctx)) of
        Panic m \<Rightarrow> (Panic m, pool_Put ctx db, w)
      | Return q \<Rightarrow>
          (let ctx' = ctx\<lparr>sql := q\<rparr>
           in if selectType = SelectTypeOne then
                (let (e, w') = GetContext d (timeout db) (tx ctx') dst (sql ctx') (args ctx') w
                 in (Return e, pool_Put ctx' db, w'))
              else if selectType = SelectTypeMany then
                (let (e, w') = SelectContext d (timeout db) (tx ctx') dst (sql ctx') (args ctx') w
                 in (Return e, pool_Put ctx' db, w'))
              else (Panic ''select type err'', pool_Put ctx' db, w)))"

definition FindMany ::
  "('w, 'v, 'r) driver \<Rightarrow> dest \<Rightarrow> 'v Context \<Rightarrow> 'v DB \<Rightarrow> 'w
     \<Rightarrow> err option outcome \<times> 'v DB \<times> 'w" where
  "FindMany d dst ctx db w = ctx_find d dst SelectTypeMany ctx db w"

definition FindOne ::
  "('w, 'v, 'r) driver \<Rightarrow> dest \<Rightarrow> 'v Context \<Rightarrow> 'v DB \<Rightarrow> 'w
     \<Rightarrow> err option outcome \<times> 'v DB \<times> 'w" where
  "FindOne d dst ctx db w = ctx_find d dst SelectTypeOne ctx db w"

definition exec ::
  "('w, 'v, 'r) driver \<Rightarrow> string \<Rightarrow> 'v list \<Rightarrow> 'v Context \<Rightarrow> 'v DB \<Rightarrow> 'w
     \<Rightarrow> ('r option \<times> err option) \<times> 'v DB \<times> 'w" where
  "exec d query as ctx db w =
     (let (res, w') = ExecContext d (timeout db) (tx ctx) query as w
      in (res, pool_Put ctx db, w'))"

definition Exec ::
  "('w, 'v, 'r) driver \<Rightarrow> string \<Rightarrow> 'v list \<Rightarrow> 'v Context \<Rightarrow> 'v DB \<Rightarrow> 'w
     \<Rightarrow> ('r option \<times> err option) \<times> 'v DB \<times> 'w" where
  "Exec d query as ctx db w = exec d query as ctx db w"

text \<open>
  The two loops of \<^verbatim>\<open>InsertBatch\<close>: over the elements of a row, writing the marker
  at index \<open>i\<close> of \<^verbatim>\<open>places\<close> and appending the element to \<^verbatim>\<open>params\<close>; and over
  the rows, appending the parenthesised group to \<^verbatim>\<open>values\<close>.
\<close>

fun item_loop :: "nat \<Rightarrow> 'v list \<Rightarrow> string list \<Rightarrow> 'v list \<Rightarrow> string list \<times> 'v list" where
  "item_loop i [] places params = (places, params)"
| "item_loop i (v # vs) places params =
     item_loop (Suc i) vs (places[i := ParamMarker]) (params @ [v])"

fun data_loop :: "'v list list \<Rightarrow> 'v list \<Rightarrow> string list \<Rightarrow> 'v list \<times> string list" where
  "data_loop [] params vals = (params, vals)"
| "data_loop (item # rest) params vals =
     (let (places, params') = item_loop 0 item (replicate (length item) []) params
      in data_loop rest params' (vals @ [''('' @ sqljoin places SeqComma @ '')'']))"

definition InsertBatch ::
  "('w, 'v, 'r) driver \<Rightarrow> string list \<Rightarrow> 'v list list \<Rightarrow> 'v Context \<Rightarrow> 'v DB \<Rightarrow> 'w
     \<Rightarrow> ('r option \<times> err option) \<times> 'v DB \<times> 'w" where
  "InsertBatch d flds rows ctx db w =
     (let (params, vals) = data_loop rows [] [];
          query = ''insert into '' @ name ctx @ '' ('' @ sqljoin flds SeqComma
                  @ '') values '' @ sqljoin vals SeqComma
      in exec d query params ctx db w)"

text \<open>
  A Go map is given by its entries in the order in which the \<^verbatim>\<open>range\<close> loop happens
  to visit them.
\<close>

fun insert_loop :: "(string \<times> 'v) list \<Rightarrow> string list \<Rightarrow> 'v list \<Rightarrow> string list \<times> 'v list" where
  "insert_loop [] flds params = (flds, params)"
| "insert_loop ((k, v) # rest) flds params = insert_loop rest (flds @ [k]) (params @ [v])"

definition Insert ::
  "('w, 'v, 'r) driver \<Rightarrow> (string \<times> 'v) list \<Rightarrow> 'v Context \<Rightarrow> 'v DB \<Rightarrow> 'w
     \<Rightarrow> ('r option \<times> err option) \<times> 'v DB \<times> 'w" where
  "Insert d data ctx db w =
     (let (flds, params) = insert_loop data [] []
      in InsertBatch d flds [params] ctx db w)"

text \<open>
  After a successful \<^verbatim>\<open>exec\<close> the rows affected are read from the result; calling
  the method on a nil result is a nil dereference.
\<close>

definition rows_of ::
  "('w, 'v, 'r) driver \<Rightarrow> ('r option \<times> err option) \<Rightarrow> (int64 \<times> err option) outcome" where
  "rows_of d res =
     (case res of
        (result, Some e) \<Rightarrow> Return (0, Some e)
      | (None, None) \<Rightarrow> Panic nil_deref
      | (Some r, None) \<Rightarrow> Return (RowsAffected d r))"

definition Update ::
  "('w, 'v, 'r) driver \<Rightarrow> string \<Rightarrow> 'v list \<Rightarrow> 'v Context \<Rightarrow> 'v DB \<Rightarrow> 'w
     \<Rightarrow> (int64 \<times> err option) outcome \<times> 'v DB \<times> 'w" where
  "Update d sqlset as ctx db w =
     (let wh = sqlwhere (wheres ctx) Grouping;
          query = ''update '' @ name ctx @ '' set '' @ sqlset @ '' '' @ wh;
          params = as @ args ctx;
          (res, db', w') = exec d query params ctx db w
      in (rows_of d res, db', w'))"

fun updatemap_loop :: "(string \<times> 'v) list \<Rightarrow> 'v list \<Rightarrow> string list \<Rightarrow> 'v list \<times> string list" where
  "updatemap_loop [] params sets = (params, sets)"
| "updatemap_loop ((k, v) # rest) params sets =
     updatemap_loop rest (params @ [v]) (sets @ [k @ ''='' @ ParamMarker])"

definition UpdateMap ::
  "('w, 'v, 'r) driver \<Rightarrow> (string \<times> 'v) list \<Rightarrow> 'v Context \<Rightarrow> 'v DB \<Rightarrow> 'w
     \<Rightarrow> (int64 \<times> err option) outcome \<times> 'v DB \<times> 'w" where
  "UpdateMap d m ctx db w =
     (let (params, sets) = updatemap_loop m [] [];
          sqlset = sqljoin sets SeqComma
      in Update d sqlset params ctx db w)"

definition Delete ::
  "('w, 'v, 'r) driver \<Rightarrow> 'v Context \<Rightarrow> 'v DB \<Rightarrow> 'w
     \<Rightarrow> (int64 \<times> err option) outcome \<times> 'v DB \<times> 'w" where
  "Delete d ctx db w =
     (let wh = sqlwhere (wheres ctx) Grouping;
          query = ''delete from '' @ name ctx @ '' '' @ wh;
          (res, db', w') = exec d query (args ctx) ctx db w
      in (rows_of d res, db', w'))"

subsection \<open>The transaction helper\<close>

text \<open>
  The unit of work is a function of the transaction handle, the caller's argument and
  the world. \<open>WithTx_deferred\<close> is the deferred closure, run with the value of the
  named result \<^verbatim>\<open>err\<close> at the return; what it leaves in \<^verbatim>\<open>err\<close> is what the
  caller gets. When \<^verbatim>\<open>h\<close> succeeds on a nil handle, \<^verbatim>\<open>tx.Commit()\<close> panics with
  \<^verbatim>\<open>err\<close> still nil, so that the closure does nothing.
\<close>

definition WithTx_deferred ::
  "('w, 'v, 'r) driver \<Rightarrow> tx option \<Rightarrow> err option \<Rightarrow> 'w \<Rightarrow> err option \<times> 'w" where
  "WithTx_deferred d t e w =
     (case e of
        None \<Rightarrow> (e, w)
      | Some x \<Rightarrow> (case t of None \<Rightarrow> (e, w) | Some t' \<Rightarrow> Rollback d t' w))"

definition WithTx ::
  "('w, 'v, 'r) driver \<Rightarrow> (tx option \<Rightarrow> 'v \<Rightarrow> 'w \<Rightarrow> err option \<times> 'w) \<Rightarrow> 'v \<Rightarrow> 'w
     \<Rightarrow> err option outcome \<times> 'w" where
  "WithTx d h a w =
     (let ((t, e), w1) = Beginx d w
      in if e \<noteq> None then (Return e, w1)
         else (let (e2, w2) = h t a w1
               in if e2 \<noteq> None then
                    (let (e', w') = WithTx_deferred d t e2 w2 in (Return e', w'))
                  else (case t of
                          None \<Rightarrow> (Panic nil_deref, w2)
                        | Some t' \<Rightarrow>
                            (let (e3, w3) = Commit d t' w2;
                                 (e', w') = WithTx_deferred d t e3 w3
                             in (Return e', w')))))"

subsection \<open>Observing the calls made to the driver\<close>

text \<open>
  To state which driver operations an operation invokes, in which order and with which
  arguments, a driver is wrapped so that the world carries a log to which every call
  appends itself. The wrapped driver returns what the driver returns.
\<close>

datatype 'v call =
    CallBeginx
  | CallWork "tx option" 'v
  | CallRollback tx
  | CallCommit tx
  | CallExecContext int "tx option" string "'v list"
  | CallGetContext int "tx option" dest string "'v list"
  | CallSelectContext int "tx option" dest string "'v list"

definition logged :: "'v call \<Rightarrow> 'v call list \<Rightarrow> 'a \<times> 'w \<Rightarrow> 'a \<times> 'w \<times> 'v call list" where
  "logged c l r = (fst r, snd r, l @ [c])"

definition traced :: "('w, 'v, 'r) driver \<Rightarrow> ('w \<times> 'v call list, 'v, 'r) driver" where
  "traced d = \<lparr>
     Beginx = (\<lambda>s. logged CallBeginx (snd s) (Beginx d (fst s))),
     Rollback = (\<lambda>t s. logged (CallRollback t) (snd s) (Rollback d t (fst s))),
     Commit = (\<lambda>t s. logged (CallCommit t) (snd s) (Commit d t (fst s))),
     ExecContext = (\<lambda>to rc q as s.
        logged (CallExecContext to rc q as) (snd s) (ExecContext d to rc q as (fst s))),
     GetContext = (\<lambda>to rc dst q as s.
        logged (CallGetContext to rc dst q as) (snd s) (GetContext d to rc dst q as (fst s))),
     SelectContext = (\<lambda>to rc dst q as s.
        logged (CallSelectContext to rc dst q as) (snd s) (SelectContext d to rc dst q as (fst s))),
     RowsAffected = RowsAffected d\<rparr>"

definition traced_work ::
  "(tx option \<Rightarrow> 'v \<Rightarrow> 'w \<Rightarrow> err option \<times> 'w)
     \<Rightarrow> tx option \<Rightarrow> 'v \<Rightarrow> 'w \<times> 'v call list \<Rightarrow> err option \<times> 'w \<times> 'v call list" where
  "traced_work h t a s = logged (CallWork t a) (snd s) (h t a (fst s))"

text \<open>The zero state of a context, field by field.\<close>

definition zero_state :: "'v Context \<Rightarrow> bool" where
  "zero_state ctx \<longleftrightarrow>
     sql ctx = [] \<and> name ctx = [] \<and> what ctx = [] \<and> wheres ctx = [] \<and> args ctx = [] \<and>
     group ctx = [] \<and> having ctx = [] \<and> order ctx = [] \<and> limit ctx = 0 \<and> offset ctx = 0 \<and>
     tx ctx = None \<and> \<not> lockX ctx \<and> \<not> lockS ctx"

subsection \<open>Concrete inputs\<close>

text \<open>
  Dynamic values for the scenarios, the destination type \<^verbatim>\<open>LittleOrm\<close> of the test
  suite, a handle with a timeout of ten seconds, and a driver over a trivial world whose
  transaction operations return fixed results: \<open>scripted b r c\<close> begins with the error
  \<open>b\<close> (handing out transaction 7 when there is none), rolls back with \<open>r\<close> and
  commits with \<open>c\<close>.
\<close>

datatype gval = GInt int | GString string

definition LittleOrm :: rtype where
  "LittleOrm = Struct
     [(''Id'', [(''db'', ''id''), (''json'', ''id'')]),
      (''Name'', [(''db'', ''name'')]),
      (''Age'', [(''db'', ''age'')]),
      (''CreatedAt'', [(''db'', ''created_at'')]),
      (''UpdatedAt'', [(''db'', ''updated_at'')])]"

definition db0 :: "gval DB" where
  "db0 = \<lparr>pool = [], timeout = 10000000000\<rparr>"

definition ErrTxDone :: err where
  "ErrTxDone = ''sql: transaction has already been committed or rolled back''"

definition scripted :: "err option \<Rightarrow> err option \<Rightarrow> err option \<Rightarrow> (unit, gval, nat) driver" where
  "scripted b r c = \<lparr>
     Beginx = (\<lambda>w. ((case b of None \<Rightarrow> Some 7 | Some e \<Rightarrow> None, b), w)),
     Rollback = (\<lambda>t w. (r, w)),
     Commit = (\<lambda>t w. (c, w)),
     ExecContext = (\<lambda>to rc q as w. ((Some (length as), None), w)),
     GetContext = (\<lambda>to rc dst q as w. (None, w)),
     SelectContext = (\<lambda>to rc dst q as w. (None, w)),
     RowsAffected = (\<lambda>n. (of_nat n, None))\<rparr>"

definition work :: "err option \<Rightarrow> tx option \<Rightarrow> gval \<Rightarrow> unit \<Rightarrow> err option \<times> unit" where
  "work e t a w = (e, w)"


section \<open>Properties\<close>

subsection \<open>Joining and formatting\<close>

lemma Join_Cons: "Join (x # xs) sep = x @ concat (map (\<lambda>y. sep @ y) xs)"
  by (induction xs arbitrary: x) simp_all


lemma fmt_d_examples:
  "fmt_d 0 = ''0''" "fmt_d 1234567 = ''1234567''" "fmt_d (- 20) = ''-20''"
  by (simp_all add: fmt_d_def digits.simps)

text \<open>
  \<^bold>\<open>C5\<close>. The WHERE string assembled from the filter fragments \<open>F\<close> is empty when
  \<open>F\<close> is empty, and otherwise \<open>where\<close>, a space, and the fragments joined with
  \<open>and\<close> between spaces: the first fragment, then each further one behind the separator.
\<close>

theorem sqlwhere_law:
  "sqlwhere F Grouping = (if F = [] then [] else ''where '' @ Join F '' and '')
   \<and> sqlwhere F Grouping =
       (case F of [] \<Rightarrow> [] | f # fs \<Rightarrow> ''where '' @ f @ concat (map (\<lambda>g. '' and '' @ g) fs))"
proof -
  have gen: "sqlwhere F g =
     (case F of [] \<Rightarrow> [] | f # fs \<Rightarrow> ''where '' @ f @ concat (map (\<lambda>y. g @ y) fs))" for g
    by (cases F) (simp_all add: sqlwhere_def Join_Cons)
  have "sqlwhere F Grouping = (if F = [] then [] else ''where '' @ Join F '' and '')"
    by (simp add: sqlwhere_def Grouping_def)
  moreover have "sqlwhere F Grouping =
       (case F of [] \<Rightarrow> [] | f # fs \<Rightarrow> ''where '' @ f @ concat (map (\<lambda>g. '' and '' @ g) fs))"
    unfolding Grouping_def by (rule gen)
  ultimately show ?thesis by (rule conjI)
qed

subsection \<open>Placeholders\<close>

lemma fill_places_eq:
  "i \<le> n \<Longrightarrow> length places = n \<Longrightarrow>
   fill_places i n places = take i places @ replicate (n - i) ParamMarker"
proof (induction i n places rule: fill_places.induct)
  case (1 i n places)
  show ?case
  proof (cases "i < n")
    case True
    then have "fill_places i n places = fill_places (Suc i) n (places[i := ParamMarker])"
      by (simp add: fill_places.simps [of i])
    also have "\<dots> = take (Suc i) (places[i := ParamMarker]) @ replicate (n - Suc i) ParamMarker"
      using 1 True by simp
    also have "take (Suc i) (places[i := ParamMarker]) = take i places @ [ParamMarker]"
      using 1 True by (simp add: take_Suc_conv_app_nth)
    also have "(take i places @ [ParamMarker]) @ replicate (n - Suc i) ParamMarker
             = take i places @ replicate (n - i) ParamMarker"
      using True by (simp add: replicate_Suc [symmetric] Suc_diff_Suc del: replicate_Suc)
    finally show ?thesis .
  next
    case False
    have "fill_places i n places = places"
      using False by (subst fill_places.simps) simp
    with 1(2,3) False show ?thesis by simp
  qed
qed

lemma fill_places_all: "fill_places 0 n (replicate n []) = replicate n ParamMarker"
  by (simp add: fill_places_eq)

lemma WhereIn_eq:
  "WhereIn field vs ctx =
     ctx\<lparr>wheres := wheres ctx @ [field @ '' in ('' @ Join (replicate (length vs) ''?'') '', '' @ '')''],
         args := args ctx @ vs\<rparr>"
  by (simp add: WhereIn_def Where_def fill_places_all sqljoin_def SeqComma_def ParamMarker_def)

lemma count_marks:
  "length (filter (\<lambda>c. c = CHR ''?'') (Join (replicate n ''?'') '', '')) = n"
proof (induction n)
  case 0
  show ?case by simp
next
  case (Suc n)
  then show ?case by (cases n) simp_all
qed

text \<open>
  \<^bold>\<open>C6\<close>. \<open>WhereIn field vs\<close> appends exactly one filter fragment, the field followed by
  \<open>in\<close> and a parenthesised list of \<open>length vs\<close> question marks separated by a comma
  and a space, and appends the values \<open>vs\<close> in their order to the bound parameters;
  every other field of the context is unchanged. The list holds exactly \<open>length vs\<close>
  question marks. For the field \<open>id\<close> and the values 1, 2, 3 the fragment is
  \<open>id in (?, ?, ?)\<close> and the parameters appended are 1, 2, 3.
\<close>

theorem WhereIn_law:
  "WhereIn field vs ctx =
     ctx\<lparr>wheres := wheres ctx @ [field @ '' in ('' @ Join (replicate (length vs) ''?'') '', '' @ '')''],
         args := args ctx @ vs\<rparr>
   \<and> length (filter (\<lambda>c. c = CHR ''?'') (Join (replicate (length vs) ''?'') '', '')) = length vs
   \<and> wheres (WhereIn ''id'' [GInt 1, GInt 2, GInt 3] ctx') = wheres ctx' @ [''id in (?, ?, ?)'']
   \<and> args (WhereIn ''id'' [GInt 1, GInt 2, GInt 3] ctx') = args ctx' @ [GInt 1, GInt 2, GInt 3]"
  by (simp add: WhereIn_eq count_marks)

subsection \<open>Mutations\<close>

lemma item_loop_eq:
  "i + length vs \<le> length places \<Longrightarrow>
   item_loop i vs places params =
     (take i places @ replicate (length vs) ParamMarker @ drop (i + length vs) places, params @ vs)"
proof (induction vs arbitrary: i places params)
  case Nil
  then show ?case by simp
next
  case (Cons v vs)
  from Cons.prems have i: "i < length places" by simp
  have "item_loop i (v # vs) places params =
        item_loop (Suc i) vs (places[i := ParamMarker]) (params @ [v])" by simp
  also have "\<dots> = (take (Suc i) (places[i := ParamMarker]) @ replicate (length vs) ParamMarker
                    @ drop (Suc i + length vs) (places[i := ParamMarker]), (params @ [v]) @ vs)"
    using Cons.prems by (intro Cons.IH) simp
  also have "take (Suc i) (places[i := ParamMarker]) = take i places @ [ParamMarker]"
    using i by (simp add: take_Suc_conv_app_nth)
  also have "drop (Suc i + length vs) (places[i := ParamMarker]) = drop (i + length (v # vs)) places"
    by simp
  finally show ?case by (simp add: replicate_app_Cons_same)
qed

lemma item_loop_all:
  "item_loop 0 item (replicate (length item) []) params =
     (replicate (length item) ParamMarker, params @ item)"
  by (simp add: item_loop_eq)

lemma data_loop_eq:
  "data_loop rows params vals =
     (params @ concat rows,
      vals @ map (\<lambda>row. ''('' @ Join (replicate (length row) ''?'') '', '' @ '')'') rows)"
  by (induction rows arbitrary: params vals)
     (simp_all add: item_loop_all sqljoin_def SeqComma_def ParamMarker_def)

lemma InsertBatch_exec:
  "InsertBatch d flds rows ctx db w =
     exec d (''insert into '' @ name ctx @ '' ('' @ Join flds '', '' @ '') values ''
             @ Join (map (\<lambda>row. ''('' @ Join (replicate (length row) ''?'') '', '' @ '')'') rows) '', '')
          (concat rows) ctx db w"
  by (simp add: InsertBatch_def data_loop_eq sqljoin_def SeqComma_def)

lemma exec_traced_calls:
  "snd (snd (snd (exec (traced d) q as ctx db (w, l)))) =
     l @ [CallExecContext (timeout db) (tx ctx) q as]"
  by (simp add: exec_def traced_def logged_def split_beta)

text \<open>
  \<^bold>\<open>C7\<close>. \<open>InsertBatch flds rows\<close> makes exactly one call to the driver, on the
  context's transaction if it has one: the statement is \<open>insert into\<close>, the table, the
  fields joined by a comma and a space in parentheses, \<open>values\<close>, and one parenthesised
  group per row, the groups joined the same way, each holding one question mark per
  element of its row; the parameter list is the concatenation of the rows in order. For
  the fields name, age and the rows (a, 1), (b, 2) there are two groups and the
  parameters are a, 1, b, 2.
\<close>

theorem InsertBatch_law:
  "snd (snd (snd (InsertBatch (traced d) flds rows ctx db (w, [])))) =
     [CallExecContext (timeout db) (tx ctx)
        (''insert into '' @ name ctx @ '' ('' @ Join flds '', '' @ '') values ''
         @ Join (map (\<lambda>row. ''('' @ Join (replicate (length row) ''?'') '', '' @ '')'') rows) '', '')
        (concat rows)]
   \<and> snd (snd (snd (InsertBatch (traced d') [''name'', ''age'']
          [[GString ''a'', GInt 1], [GString ''b'', GInt 2]] ctx' db' (w', [])))) =
     [CallExecContext (timeout db') (tx ctx')
        (''insert into '' @ name ctx' @ '' (name, age) values (?, ?), (?, ?)'')
        [GString ''a'', GInt 1, GString ''b'', GInt 2]]"
  by (simp add: InsertBatch_exec exec_traced_calls)

lemma Update_calls:
  "snd (snd (snd (Update (traced d) sqlset as ctx db (w, [])))) =
     [CallExecContext (timeout db) (tx ctx)
        (''update '' @ name ctx @ '' set '' @ sqlset @ '' '' @ sqlwhere (wheres ctx) '' and '')
        (as @ args ctx)]"
  using exec_traced_calls [of d _ _ ctx db w "[]"]
  by (simp add: Update_def Grouping_def split_beta Let_def)

text \<open>
  \<^bold>\<open>C3\<close>. \<open>Update sqlset as\<close> on a context whose accumulated parameters are \<open>P\<close>
  makes exactly one call to the driver: the statement is \<open>update\<close>, the table, \<open>set\<close>,
  the SET clause, a space and the WHERE string of the filters, and the parameter list is
  \<open>as\<close> followed by \<open>P\<close>, the order of the placeholders in that statement. With the
  filter \<open>id=?\<close> bound to 1, the update \<open>age=age+?\<close> with 5 passes 5, 1.
\<close>

theorem Update_law:
  "snd (snd (snd (Update (traced d) sqlset as ctx db (w, [])))) =
     [CallExecContext (timeout db) (tx ctx)
        (''update '' @ name ctx @ '' set '' @ sqlset @ '' '' @ sqlwhere (wheres ctx) '' and '')
        (as @ args ctx)]
   \<and> snd (snd (snd (Update (traced d') ''age=age+?'' [GInt 5]
          (Where ''id=?'' [GInt 1] (Name ''little_orm'' (allocateContext db'))) db' (w', [])))) =
     [CallExecContext (timeout db') None
        ''update little_orm set age=age+? where id=?'' [GInt 5, GInt 1]]"
  by (simp add: Update_calls Where_def Name_def allocateContext_def sqlwhere_def)

subsection \<open>Reading\<close>

lemma decodetags_panic: "decodetags dst = Panic m \<Longrightarrow> m \<noteq> ''select type err''"
  by (auto simp: decodetags_def split: option.splits outcome.splits rtype.splits elim!: Elem.elims)

lemma sqlselect_panic: "sqlselect ctx dst = Panic m \<Longrightarrow> m \<noteq> ''select type err''"
  by (auto simp: sqlselect_def split: if_splits outcome.splits dest: decodetags_panic)

lemma ctx_find_known:
  "s = SelectTypeOne \<or> s = SelectTypeMany \<Longrightarrow>
   fst (ctx_find d dst s ctx db w) \<noteq> Panic ''select type err''"
  by (auto simp: ctx_find_def Let_def split_beta SelectTypeOne_def SelectTypeMany_def
           split: outcome.splits if_splits dest: sqlselect_panic)

lemma ctx_find_unknown:
  "s \<noteq> SelectTypeOne \<Longrightarrow> s \<noteq> SelectTypeMany \<Longrightarrow>
   \<exists>m. fst (ctx_find d dst s ctx db w) = Panic m"
  by (auto simp: ctx_find_def Let_def split: outcome.splits)

lemma ctx_find_unknown_assembled:
  "s \<noteq> SelectTypeOne \<Longrightarrow> s \<noteq> SelectTypeMany \<Longrightarrow>
   sql ctx \<noteq> [] \<or> what ctx \<noteq> [] \<or> decodetags dst = Return tags \<Longrightarrow>
   fst (ctx_find d dst s ctx db w) = Panic ''select type err''"
  by (auto simp: ctx_find_def Let_def sqlselect_def split: outcome.splits)

text \<open>
  \<^bold>\<open>C9\<close>. \<open>FindOne\<close> and \<open>FindMany\<close> call the internal find with the selectors
  \<open>SelectTypeOne\<close> and \<open>SelectTypeMany\<close>, so for every driver, destination, context,
  handle and world neither ends in the panic \<open>select type err\<close>. The internal find
  with any other selector never returns: it ends in a panic, which is not an error value
  handed to the caller.
\<close>

theorem find_selector:
  "FindOne d dst ctx db w = ctx_find d dst SelectTypeOne ctx db w
   \<and> FindMany d dst ctx db w = ctx_find d dst SelectTypeMany ctx db w
   \<and> fst (FindOne d dst ctx db w) \<noteq> Panic ''select type err''
   \<and> fst (FindMany d dst ctx db w) \<noteq> Panic ''select type err''
   \<and> (s \<noteq> SelectTypeOne \<and> s \<noteq> SelectTypeMany \<longrightarrow>
        (\<exists>m. fst (ctx_find d dst s ctx db w) = Panic m))"
  by (simp add: FindOne_def FindMany_def ctx_find_known ctx_find_unknown)

text \<open>
  The selector 2 on a pointer to \<^verbatim>\<open>LittleOrm\<close> panics with \<open>select type err\<close>,
  where \<open>FindOne\<close> returns the driver's result.
\<close>

theorem find_selector_witness:
  "(2::int) \<noteq> SelectTypeOne \<and> 2 \<noteq> SelectTypeMany \<and>
   fst (ctx_find (scripted None None None) (Some (Pointer LittleOrm)) 2
          (Name ''little_orm'' (allocateContext db0)) db0 ()) = Panic ''select type err''
   \<and> fst (FindOne (scripted None None None) (Some (Pointer LittleOrm))
          (Name ''little_orm'' (allocateContext db0)) db0 ()) = Return None"
  using find_selector [of "scripted None None None" "Some (Pointer LittleOrm)"
          "Name ''little_orm'' (allocateContext db0)" db0 "()" 2]
  by (simp add: SelectTypeOne_def SelectTypeMany_def ctx_find_def sqlselect_def decodetags_def
        LittleOrm_def Name_def allocateContext_def tag_get_def DBTag_def scripted_def FindOne_def)

subsection \<open>The pool\<close>

lemma Acquire_zero: "zero_state (fst (Acquire i db))"
  by (simp add: Acquire_def pool_Get_def reset_def zero_state_def split_beta)

lemma reset_zero: "zero_state (reset ctx)"
  by (simp add: reset_def zero_state_def)

lemma reset_sql: "reset (ctx\<lparr>sql := q\<rparr>) = reset ctx"
  by (simp add: reset_def)

lemma Acquire_released: "Acquire 0 (db\<lparr>pool := ctx # pool db\<rparr>) = (reset ctx, db)"
  by (simp add: Acquire_def pool_Get_def)

lemma exec_db: "fst (snd (exec d q as ctx db w)) = db\<lparr>pool := ctx # pool db\<rparr>"
  by (simp add: exec_def pool_Put_def split_beta)

lemma ctx_find_db:
  "\<exists>q. fst (snd (ctx_find d dst s ctx db w)) = db\<lparr>pool := ctx\<lparr>sql := q\<rparr> # pool db\<rparr>"
proof (cases "if sql ctx = [] then sqlselect ctx dst else Return (sql ctx)")
  case (Return q)
  then have "fst (snd (ctx_find d dst s ctx db w)) = db\<lparr>pool := ctx\<lparr>sql := q\<rparr> # pool db\<rparr>"
    by (simp add: ctx_find_def pool_Put_def split_beta Let_def)
  then show ?thesis ..
next
  case (Panic m)
  then have "fst (snd (ctx_find d dst s ctx db w)) = db\<lparr>pool := ctx\<lparr>sql := sql ctx\<rparr> # pool db\<rparr>"
    by (simp add: ctx_find_def pool_Put_def)
  then show ?thesis ..
qed

lemma ctx_find_released: "Acquire 0 (fst (snd (ctx_find d dst s ctx db w))) = (reset ctx, db)"
  using ctx_find_db [of d dst s ctx db w] by (auto simp: Acquire_released reset_sql)

lemma exec_released: "Acquire 0 (fst (snd (exec d q as ctx db w))) = (reset ctx, db)"
  by (simp add: exec_db Acquire_released)

lemma Update_released: "Acquire 0 (fst (snd (Update d sqlset as ctx db w))) = (reset ctx, db)"
  using exec_released [of d _ _ ctx db w] by (simp add: Update_def split_beta Let_def)

lemma Delete_released: "Acquire 0 (fst (snd (Delete d ctx db w))) = (reset ctx, db)"
  using exec_released [of d _ _ ctx db w] by (simp add: Delete_def split_beta Let_def)

lemma InsertBatch_released:
  "Acquire 0 (fst (snd (InsertBatch d flds rows ctx db w))) = (reset ctx, db)"
  by (simp add: InsertBatch_exec exec_released)

text \<open>
  \<^bold>\<open>C2\<close>. After each of the eight terminal operations, whatever the driver answered
  and also when the operation panicked, the next \<open>Acquire\<close> yields a context in the
  zero state, whichever idle context the pool hands out or when it allocates a new one
  (every choice \<open>i\<close>); and when the pool hands out the context just released (choice 0),
  \<open>Acquire\<close> returns that context reset and the handle is as it was before the
  operation.
\<close>

theorem round_trip_reset:
  "zero_state (fst (Acquire i (fst (snd (FindOne d dst ctx db w)))))
   \<and> zero_state (fst (Acquire i (fst (snd (FindMany d dst ctx db w)))))
   \<and> zero_state (fst (Acquire i (fst (snd (Insert d m ctx db w)))))
   \<and> zero_state (fst (Acquire i (fst (snd (InsertBatch d flds rows ctx db w)))))
   \<and> zero_state (fst (Acquire i (fst (snd (Update d sqlset as ctx db w)))))
   \<and> zero_state (fst (Acquire i (fst (snd (UpdateMap d m ctx db w)))))
   \<and> zero_state (fst (Acquire i (fst (snd (Delete d ctx db w)))))
   \<and> zero_state (fst (Acquire i (fst (snd (Exec d q as ctx db w)))))
   \<and> Acquire 0 (fst (snd (FindOne d dst ctx db w))) = (reset ctx, db)
   \<and> Acquire 0 (fst (snd (FindMany d dst ctx db w))) = (reset ctx, db)
   \<and> Acquire 0 (fst (snd (Insert d m ctx db w))) = (reset ctx, db)
   \<and> Acquire 0 (fst (snd (InsertBatch d flds rows ctx db w))) = (reset ctx, db)
   \<and> Acquire 0 (fst (snd (Update d sqlset as ctx db w))) = (reset ctx, db)
   \<and> Acquire 0 (fst (snd (UpdateMap d m ctx db w))) = (reset ctx, db)
   \<and> Acquire 0 (fst (snd (Delete d ctx db w))) = (reset ctx, db)
   \<and> Acquire 0 (fst (snd (Exec d q as ctx db w))) = (reset ctx, db)
   \<and> zero_state (reset ctx)"
  by (simp add: Acquire_zero FindOne_def FindMany_def ctx_find_released Insert_def split_beta
        InsertBatch_released Update_released UpdateMap_def Delete_released Exec_def
        exec_released reset_zero)

subsection \<open>Select assembly\<close>


lemma collect_tags_filter:
  "collect_tags fs = filter (\<lambda>c. c \<noteq> []) (map (\<lambda>f. tag_get (snd f) ''db'') fs)"
  by (induction fs) (simp_all add: DBTag_def Let_def)

lemma decodetags_struct:
  "decodetags (Some (Pointer (Struct fs))) = Return (collect_tags fs)"
  "decodetags (Some (Pointer (Slice (Struct fs)))) = Return (collect_tags fs)"
  by (simp_all add: decodetags_def)




subsection \<open>Transactions\<close>

text \<open>
  \<^bold>\<open>C1\<close>, amended. \<open>WithTx h a\<close> first begins a transaction. If that fails, its
  error is returned and nothing else is called, neither the unit of work nor a rollback.
  If the unit of work returns an error, \<open>Rollback\<close> is called and what it returns, an
  error or nil, is the result; the error of the unit of work is dropped. If the unit of
  work returns no error, \<open>Commit\<close> is called; when the commit succeeds the result is
  nil and nothing else is called; when the commit fails, \<open>Rollback\<close> is called as well
  and what it returns, an error or nil, is the result in place of the commit's error.
\<close>

theorem WithTx_protocol:
  "(Beginx d w = ((t, Some e), w1) \<longrightarrow>
      WithTx (traced d) (traced_work h) a (w, []) = (Return (Some e), w1, [CallBeginx]))
   \<and> (Beginx d w = ((Some t', None), w1) \<and> h (Some t') a w1 = (Some e, w2)
        \<and> Rollback d t' w2 = (r, w3) \<longrightarrow>
      WithTx (traced d) (traced_work h) a (w, []) =
        (Return r, w3, [CallBeginx, CallWork (Some t') a, CallRollback t']))
   \<and> (Beginx d w = ((Some t', None), w1) \<and> h (Some t') a w1 = (None, w2)
        \<and> Commit d t' w2 = (None, w3) \<longrightarrow>
      WithTx (traced d) (traced_work h) a (w, []) =
        (Return None, w3, [CallBeginx, CallWork (Some t') a, CallCommit t']))
   \<and> (Beginx d w = ((Some t', None), w1) \<and> h (Some t') a w1 = (None, w2)
        \<and> Commit d t' w2 = (Some e, w3) \<and> Rollback d t' w3 = (r, w4) \<longrightarrow>
      WithTx (traced d) (traced_work h) a (w, []) =
        (Return r, w4, [CallBeginx, CallWork (Some t') a, CallCommit t', CallRollback t']))"
  by (simp add: WithTx_def WithTx_deferred_def traced_def traced_work_def logged_def)

text \<open>
  One run for each case: a failing begin; a failing unit of work with a failing and
  with a successful rollback; a successful commit; a failing commit.
\<close>

theorem WithTx_protocol_witness:
  "WithTx (traced (scripted (Some ''bad connection'') None None)) (traced_work (work None))
      (GInt 100) ((), []) = (Return (Some ''bad connection''), (), [CallBeginx])
   \<and> WithTx (traced (scripted None (Some ''rollback failed'') None))
      (traced_work (work (Some ''update row affect error''))) (GInt 100) ((), []) =
        (Return (Some ''rollback failed''), (),
         [CallBeginx, CallWork (Some 7) (GInt 100), CallRollback 7])
   \<and> WithTx (traced (scripted None None None))
      (traced_work (work (Some ''update row affect error''))) (GInt 100) ((), []) =
        (Return None, (), [CallBeginx, CallWork (Some 7) (GInt 100), CallRollback 7])
   \<and> WithTx (traced (scripted None None None)) (traced_work (work None)) (GInt 100) ((), []) =
        (Return None, (), [CallBeginx, CallWork (Some 7) (GInt 100), CallCommit 7])
   \<and> WithTx (traced (scripted None (Some ErrTxDone) (Some ''commit failed'')))
      (traced_work (work None)) (GInt 100) ((), []) =
        (Return (Some ErrTxDone), (),
         [CallBeginx, CallWork (Some 7) (GInt 100), CallCommit 7, CallRollback 7])"
  using WithTx_protocol [of "scripted (Some ''bad connection'') None None" "()" None
          "''bad connection''" "()" "work None" "GInt 100"]
        WithTx_protocol [of "scripted None (Some ''rollback failed'') None" "()" _
          "''update row affect error''" "()" "work (Some ''update row affect error'')"
          "GInt 100" 7 "()" "Some ''rollback failed''" "()"]
        WithTx_protocol [of "scripted None None None" "()" _ "''update row affect error''"
          "()" "work (Some ''update row affect error'')" "GInt 100" 7 "()" None "()"]
        WithTx_protocol [of "scripted None None None" "()" _ _
          "()" "work None" "GInt 100" 7 "()" _ "()"]
        WithTx_protocol [of "scripted None (Some ErrTxDone) (Some ''commit failed'')" "()" _
          "''commit failed''" "()" "work None" "GInt 100" 7 "()" "Some ErrTxDone" "()" "()"]
  by (simp add: scripted_def work_def)

text \<open>
  The claim as stated returns the commit's error. When the commit fails with
  \<open>commit failed\<close> the deferred closure calls \<open>Rollback\<close>, which on a finished
  transaction answers \<^verbatim>\<open>sql.ErrTxDone\<close>, and that is what the caller gets.
\<close>

theorem WithTx_commit_error_counterexample:
  "Commit (scripted None (Some ErrTxDone) (Some ''commit failed'')) 7 () = (Some ''commit failed'', ())
   \<and> fst (WithTx (scripted None (Some ErrTxDone) (Some ''commit failed'')) (work None) (GInt 100) ())
       \<noteq> Return (Some ''commit failed'')
   \<and> WithTx (traced (scripted None (Some ErrTxDone) (Some ''commit failed'')))
      (traced_work (work None)) (GInt 100) ((), []) =
        (Return (Some ErrTxDone), (),
         [CallBeginx, CallWork (Some 7) (GInt 100), CallCommit 7, CallRollback 7])"
  by (simp add: WithTx_def WithTx_deferred_def traced_def traced_work_def logged_def
        scripted_def work_def ErrTxDone_def)

end
